theory Spec2Isabelle
  imports Main "HOL-Library.AList" "HOL-Library.Multiset"
begin

section \<open>Data model (types.ts)\<close>

datatype ChartType = BAR | LINE | SCATTER | AREA | PIE | RADAR | COMPOSED

text \<open>
  The interface \<open>VisualizationConfig\<close>. A field marked \<open>?\<close> in the source is an option.
  \<open>yAxisKey\<close> is declared \<open>string\<close>, but the value arrives unchecked from
  \<open>JSON.parse\<close> and the program tests it for falsiness (\<open>!config.yAxisKey\<close>,
  \<open>config.yAxisKey || 'value'\<close>); \<open>None\<close> stands for an absent key.
\<close>

record VisualizationConfig =
  chartType :: ChartType
  xAxisKey :: string
  yAxisKey :: "string option"
  seriesKeys :: "string list option"
  groupBy :: "string option"
  title :: string
  description :: string
  colors :: "string list option"
  xLabel :: "string option"
  yLabel :: "string option"
  rCode :: "string option"
  pythonCode :: "string option"

text \<open>
  A cell of a parsed row. With \<open>dynamicTyping\<close> the parser yields numbers, booleans,
  strings and null. A number is a double, and the program never computes with one: it only
  turns it into text, so a number is carried as the text that \<open>String\<close> gives for it.
\<close>

datatype cell = Num string | Str string | Bool bool | Null

text \<open>A plain object: its own properties, in the order of their creation.\<close>

type_synonym 'v js_object = "(string \<times> 'v) list"

type_synonym row = "cell js_object"

record Dataset =
  name :: string
  data :: "row list"
  columns :: "string list"

section \<open>Plain objects of the runtime\<close>

text \<open>
  An object written \<open>{}\<close> inherits from \<open>Object.prototype\<close>: these function-valued
  properties, and the accessor \<open>__proto__\<close>.
\<close>

definition Object_prototype_functions :: "string list" where
  "Object_prototype_functions =
     [''constructor'', ''hasOwnProperty'', ''isPrototypeOf'', ''propertyIsEnumerable'',
      ''toLocaleString'', ''toString'', ''valueOf'', ''__defineGetter__'',
      ''__defineSetter__'', ''__lookupGetter__'', ''__lookupSetter__'']"

datatype 'v lookup = Own 'v | InheritedFunction string | PrototypeObject | Missing

definition js_get :: "'v js_object \<Rightarrow> string \<Rightarrow> 'v lookup" where
  "js_get obj k =
     (case map_of obj k of
        Some v \<Rightarrow> Own v
      | None \<Rightarrow>
          if k = ''__proto__'' then PrototypeObject
          else if k \<in> set Object_prototype_functions then InheritedFunction k
          else Missing)"

text \<open>
  \<open>obj[k] = v\<close> for a primitive \<open>v\<close>: an own property is overwritten in place; the
  inherited setter of \<open>__proto__\<close> ignores a value that is no object; any other key
  becomes a new own property at the end.
\<close>

definition js_set :: "'v js_object \<Rightarrow> string \<Rightarrow> 'v \<Rightarrow> 'v js_object" where
  "js_set obj k v =
     (if map_of obj k \<noteq> None then AList.update k v obj
      else if k = ''__proto__'' then obj
      else obj @ [(k, v)])"

text \<open>
  The text of a built-in function. Its exact spelling is left to the engine; this is the
  one the common engines print. \<open>Object.prototype.constructor\<close> is \<open>Object\<close>.
\<close>

definition native_function_text :: "string \<Rightarrow> string" where
  "native_function_text f =
     ''function '' @ (if f = ''constructor'' then ''Object'' else f) @ ''() { [native code] }''"

text \<open>\<open>String(v)\<close> for a cell.\<close>

fun cell_text :: "cell \<Rightarrow> string" where
  "cell_text (Num s) = s"
| "cell_text (Str s) = s"
| "cell_text (Bool b) = (if b then ''true'' else ''false'')"
| "cell_text Null = ''null''"

text \<open>\<open>String(row[k])\<close>.\<close>

definition row_text :: "row \<Rightarrow> string \<Rightarrow> string" where
  "row_text r k =
     (case js_get r k of
        Own c \<Rightarrow> cell_text c
      | InheritedFunction f \<Rightarrow> native_function_text f
      | PrototypeObject \<Rightarrow> ''[object Object]''
      | Missing \<Rightarrow> ''undefined'')"

text \<open>
  Own property keys are listed with the array indices first, in ascending order, then the
  other keys in the order of their creation. An array index is the canonical decimal text
  of an integer below \<open>2^32 - 1\<close>.
\<close>

definition is_digit :: "char \<Rightarrow> bool" where
  "is_digit c = (48 \<le> (of_char c :: int) \<and> (of_char c :: int) \<le> 57)"

definition decimal_value :: "string \<Rightarrow> int" where
  "decimal_value s = foldl (\<lambda>n c. 10 * n + ((of_char c :: int) - 48)) 0 s"

definition is_array_index :: "string \<Rightarrow> bool" where
  "is_array_index s =
     (s \<noteq> [] \<and> list_all is_digit s \<and> (s = ''0'' \<or> hd s \<noteq> CHR ''0'') \<and>
      length s \<le> 10 \<and> decimal_value s < 4294967295)"

definition Object_entries :: "'v js_object \<Rightarrow> (string \<times> 'v) list" where
  "Object_entries obj =
     sort_key (\<lambda>p. decimal_value (fst p)) (filter (\<lambda>p. is_array_index (fst p)) obj)
     @ filter (\<lambda>p. \<not> is_array_index (fst p)) obj"

section \<open>processData\<close>

text \<open>
  A value held by the \<open>counts\<close> object or by an aggregated entry: a number or a string.
\<close>

datatype jsval = Number nat | Text string

text \<open>\<open>(counts[key] || 0) + 1\<close>: addition on a number, concatenation on anything else.\<close>

fun plus_one :: "jsval lookup \<Rightarrow> jsval" where
  "plus_one Missing = Number 1"
| "plus_one (Own (Number n)) = Number (n + 1)"
| "plus_one (Own (Text s)) = (if s = [] then Number 1 else Text (s @ ''1''))"
| "plus_one (InheritedFunction f) = Text (native_function_text f @ ''1'')"
| "plus_one PrototypeObject = Text ''[object Object]1''"

definition count_row :: "string \<Rightarrow> row \<Rightarrow> jsval js_object \<Rightarrow> jsval js_object" where
  "count_row xkey r counts =
     (let key = row_text r xkey
      in js_set counts key (plus_one (js_get counts key)))"

text \<open>The object literal of an aggregated entry: a later property overwrites in place.\<close>

text \<open>\<open>config.yAxisKey || 'value'\<close>.\<close>

definition count_key :: "VisualizationConfig \<Rightarrow> string" where
  "count_key cfg =
     (case yAxisKey cfg of None \<Rightarrow> ''value'' | Some y \<Rightarrow> if y = [] then ''value'' else y)"

definition group_entry :: "VisualizationConfig \<Rightarrow> string \<times> jsval \<Rightarrow> jsval js_object" where
  "group_entry cfg p =
     (case p of (nm, value) \<Rightarrow>
        AList.update ''name'' (Text nm)
          (AList.update (count_key cfg) value [(xAxisKey cfg, Text nm)]))"

datatype chart_rows = Raw "row list" | Grouped "jsval js_object list"

definition processData :: "row list option \<Rightarrow> VisualizationConfig option \<Rightarrow> chart_rows" where
  "processData data_opt config_opt =
     (case (data_opt, config_opt) of
        (Some rows, Some cfg) \<Rightarrow>
          if (chartType cfg = PIE \<or> chartType cfg = BAR) \<and> length rows > 20
             \<and> (yAxisKey cfg = None \<or> yAxisKey cfg = Some [] \<or> yAxisKey cfg = Some ''count'')
          then Grouped (map (group_entry cfg)
                 (Object_entries (fold (count_row (xAxisKey cfg)) rows [])))
          else Raw rows
      | _ \<Rightarrow> Raw [])"

section \<open>The generative service (services/geminiService.ts)\<close>

datatype error =
    ApiKeyNotFound
  | CallRejected string
  | NoResponse
  | SyntaxError
  | CouldNotParseColumns
  | ParserError string

datatype part = TextPart string | InlineData string string

datatype contents = Prompt string | Parts "part list"

datatype schema =
    STRING "string list option" "string option"
  | ARRAY schema "string option"
  | OBJECT "(string \<times> schema) list" "string list"

record request =
  model :: string
  contents :: contents
  responseMimeType :: string
  responseSchema :: schema

datatype ai_outcome = Rejected string | Response "string option"

datatype papa_results = Complete "row list" "string list option" | Failed string

record File =
  file_name :: string
  file_bytes :: string

text \<open>
  What the program calls and does not define: the environment variable, the model behind
  \<open>ai.models.generateContent\<close> (given the key of the client and the request),
  \<open>JSON.stringify\<close> at the three types it is used at, \<open>JSON.parse\<close> (\<open>None\<close> when it
  throws), the CSV parser on a file and on a text, and \<open>FileReader.readAsDataURL\<close>.
\<close>

record runtime =
  API_KEY :: "string option"
  generateContent :: "string \<Rightarrow> request \<Rightarrow> ai_outcome"
  stringify_columns :: "string list \<Rightarrow> string"
  stringify_rows :: "row list \<Rightarrow> string"
  stringify_config :: "VisualizationConfig \<Rightarrow> string"
  JSON_parse :: "string \<Rightarrow> VisualizationConfig option"
  Papa_parse_file :: "File \<Rightarrow> papa_results"
  Papa_parse_text :: "string \<Rightarrow> papa_results"
  readAsDataURL :: "File \<Rightarrow> string option"

text \<open>What a call leaves behind besides its result.\<close>

datatype effect =
    GenerateContent request
  | ConsoleError error
  | Alert string
  | UnhandledRejection error

text \<open>A string or null in a condition: null and the empty string are falsy.\<close>

fun truthy :: "string option \<Rightarrow> bool" where
  "truthy None = False"
| "truthy (Some s) = (s \<noteq> [])"

definition getAiClient :: "runtime \<Rightarrow> error + string" where
  "getAiClient rt =
     (case API_KEY rt of
        None \<Rightarrow> Inl ApiKeyNotFound
      | Some apiKey \<Rightarrow> if apiKey = [] then Inl ApiKeyNotFound else Inr apiKey)"

definition nl :: string where
  "nl = [CHR 0x0A]"

definition dq :: string where
  "dq = [CHR 0x22]"

definition ChartType_values :: "string list" where
  "ChartType_values = [''bar'', ''line'', ''scatter'', ''area'', ''pie'', ''radar'', ''composed'']"

definition required_fields :: "string list" where
  "required_fields = [''chartType'', ''xAxisKey'', ''yAxisKey'', ''title'', ''rCode'', ''pythonCode'']"

definition analyze_schema :: schema where
  "analyze_schema = OBJECT
     [(''chartType'', STRING (Some ChartType_values) None),
      (''xAxisKey'', STRING None (Some ''Key from data to use for X axis'')),
      (''yAxisKey'', STRING None (Some ''Key from data to use for Y axis (primary metric)'')),
      (''seriesKeys'', ARRAY (STRING None None)
         (Some ''Array of keys for multiple lines/bars if applicable'')),
      (''groupBy'', STRING None
         (Some (''Key to group by for colors (e.g., '' @ [CHR 0x27] @ ''Pclass'' @ [CHR 0x27]
                @ '' or '' @ [CHR 0x27] @ ''Sex'' @ [CHR 0x27] @ '')''))),
      (''title'', STRING None None),
      (''description'', STRING None None),
      (''xLabel'', STRING None None),
      (''yLabel'', STRING None None),
      (''colors'', ARRAY (STRING None None) None),
      (''rCode'', STRING None (Some ''Complete R script using ggplot2'')),
      (''pythonCode'', STRING None (Some ''Complete Python script using seaborn/matplotlib''))]
     required_fields"

definition refine_schema :: schema where
  "refine_schema = OBJECT
     [(''chartType'', STRING (Some ChartType_values) None),
      (''xAxisKey'', STRING None None),
      (''yAxisKey'', STRING None None),
      (''seriesKeys'', ARRAY (STRING None None) None),
      (''groupBy'', STRING None None),
      (''title'', STRING None None),
      (''description'', STRING None None),
      (''xLabel'', STRING None None),
      (''yLabel'', STRING None None),
      (''colors'', ARRAY (STRING None None) None),
      (''rCode'', STRING None None),
      (''pythonCode'', STRING None None)]
     required_fields"

definition analyze_prompt :: "runtime \<Rightarrow> row list \<Rightarrow> string list \<Rightarrow> string \<Rightarrow> string" where
  "analyze_prompt rt dataSample cols userPrompt =
     nl @ ''    You are an expert Data Visualization Engineer. '' @ nl
     @ ''    '' @ nl
     @ ''    Task:'' @ nl
     @ ''    1. Analyze the provided dataset structure (columns and sample data).'' @ nl
     @ ''    2. If an image is provided, analyze the chart style, type, and aesthetics (color, layout) from the image.'' @ nl
     @ ''    3. Generate a configuration to recreate a similar visualization using the provided dataset.'' @ nl
     @ ''    4. If no image is provided, suggest the best chart type based on the data and user prompt.'' @ nl
     @ ''    5. Also generate R (ggplot2) and Python (matplotlib/seaborn) code snippets to reproduce this chart.'' @ nl
     @ nl
     @ ''    User Prompt: '' @ userPrompt @ nl
     @ ''    Data Columns: '' @ stringify_columns rt cols @ nl
     @ ''    Data Sample (First 3 rows): '' @ stringify_rows rt (take 3 dataSample) @ nl
     @ ''  ''"

text \<open>\<open>s.split(',')\<close>: the fields between the separators, at least one.\<close>

fun split_on :: "char \<Rightarrow> string \<Rightarrow> string list" where
  "split_on sep [] = [[]]"
| "split_on sep (c # cs) =
     (let fields = split_on sep cs
      in if c = sep then [] # fields else (c # hd fields) # tl fields)"

text \<open>\<open>imageDataBase64.split(',')[1] || imageDataBase64\<close>.\<close>

definition cleanBase64 :: "string \<Rightarrow> string" where
  "cleanBase64 imageDataBase64 =
     (let fields = split_on (CHR '','') imageDataBase64
      in if 1 < length fields \<and> fields ! 1 \<noteq> [] then fields ! 1 else imageDataBase64)"

definition analyze_parts ::
  "runtime \<Rightarrow> string option \<Rightarrow> row list \<Rightarrow> string list \<Rightarrow> string \<Rightarrow> part list" where
  "analyze_parts rt imageDataBase64 dataSample cols userPrompt =
     [TextPart (analyze_prompt rt dataSample cols userPrompt)]
     @ (if truthy imageDataBase64
        then [InlineData ''image/png'' (cleanBase64 (the imageDataBase64))]
        else [])"

definition analyze_request ::
  "runtime \<Rightarrow> string option \<Rightarrow> row list \<Rightarrow> string list \<Rightarrow> string \<Rightarrow> request" where
  "analyze_request rt imageDataBase64 dataSample cols userPrompt =
     \<lparr>model = ''gemini-2.5-flash'',
      contents = Parts (analyze_parts rt imageDataBase64 dataSample cols userPrompt),
      responseMimeType = ''application/json'',
      responseSchema = analyze_schema\<rparr>"

text \<open>The end of both operations: reject an empty answer, parse the rest.\<close>

definition read_response :: "runtime \<Rightarrow> ai_outcome \<Rightarrow> error + VisualizationConfig" where
  "read_response rt outcome =
     (case outcome of
        Rejected reason \<Rightarrow> Inl (CallRejected reason)
      | Response text_opt \<Rightarrow>
          if \<not> truthy text_opt then Inl NoResponse
          else (case JSON_parse rt (the text_opt) of
                  None \<Rightarrow> Inl SyntaxError
                | Some cfg \<Rightarrow> Inr cfg))"

definition analyzeImageAndData ::
  "runtime \<Rightarrow> string option \<Rightarrow> row list \<Rightarrow> string list \<Rightarrow> string
     \<Rightarrow> (error + VisualizationConfig) \<times> effect list" where
  "analyzeImageAndData rt imageDataBase64 dataSample cols userPrompt =
     (case getAiClient rt of
        Inl e \<Rightarrow> (Inl e, [])
      | Inr ai \<Rightarrow>
          (let req = analyze_request rt imageDataBase64 dataSample cols userPrompt
           in (read_response rt (generateContent rt ai req), [GenerateContent req])))"

definition refine_prompt :: "runtime \<Rightarrow> VisualizationConfig \<Rightarrow> string \<Rightarrow> string" where
  "refine_prompt rt currentConfig userPrompt =
     nl @ ''    Current Configuration: '' @ stringify_config rt currentConfig @ nl
     @ ''    User Update Request: '' @ dq @ userPrompt @ dq @ nl
     @ nl
     @ ''    Update the visualization configuration based on the user'' @ [CHR 0x27]
       @ ''s request. '' @ nl
     @ ''    You can change the chart type, axis keys, titles, or colors.'' @ nl
     @ ''    Regenerate the R and Python code to reflect these changes.'' @ nl
     @ ''  ''"

definition refine_request :: "runtime \<Rightarrow> VisualizationConfig \<Rightarrow> string \<Rightarrow> request" where
  "refine_request rt currentConfig userPrompt =
     \<lparr>model = ''gemini-2.5-flash'',
      contents = Prompt (refine_prompt rt currentConfig userPrompt),
      responseMimeType = ''application/json'',
      responseSchema = refine_schema\<rparr>"

definition refineConfig ::
  "runtime \<Rightarrow> VisualizationConfig \<Rightarrow> string \<Rightarrow> (error + VisualizationConfig) \<times> effect list" where
  "refineConfig rt currentConfig userPrompt =
     (case getAiClient rt of
        Inl e \<Rightarrow> (Inl e, [])
      | Inr ai \<Rightarrow>
          (let req = refine_request rt currentConfig userPrompt
           in (read_response rt (generateContent rt ai req), [GenerateContent req])))"

section \<open>Loading data (utils/parsers.ts)\<close>

record parsed =
  parsed_data :: "row list"
  parsed_columns :: "string list"

text \<open>
  The promise around the parser: \<open>complete\<close> resolves when \<open>results.meta.fields\<close> is
  there (an array, even an empty one, is truthy) and rejects otherwise; \<open>error\<close> rejects.
\<close>

fun settle_parse :: "papa_results \<Rightarrow> error + parsed" where
  "settle_parse (Complete rows (Some meta_fields)) =
     Inr \<lparr>parsed_data = rows, parsed_columns = meta_fields\<rparr>"
| "settle_parse (Complete rows None) = Inl CouldNotParseColumns"
| "settle_parse (Failed e) = Inl (ParserError e)"

definition parseCSV :: "runtime \<Rightarrow> File \<Rightarrow> error + parsed" where
  "parseCSV rt f = settle_parse (Papa_parse_file rt f)"

definition rawData :: string where
  "rawData =
     ''PassengerId,Survived,Pclass,Name,Sex,Age,SibSp,Parch,Ticket,Fare,Cabin,Embarked'' @ nl
     @ ''1,0,3,'' @ dq @ ''Braund, Mr. Owen Harris'' @ dq @ '',male,22,1,0,A/5 21171,7.25,,S'' @ nl
     @ ''2,1,1,'' @ dq @ ''Cumings, Mrs. John Bradley (Florence Briggs Thayer)'' @ dq
       @ '',female,38,1,0,PC 17599,71.2833,C85,C'' @ nl
     @ ''3,1,3,'' @ dq @ ''Heikkinen, Miss. Laina'' @ dq
       @ '',female,26,0,0,STON/O2. 3101282,7.925,,S'' @ nl
     @ ''4,1,1,'' @ dq @ ''Futrelle, Mrs. Jacques Heath (Lily May Peel)'' @ dq
       @ '',female,35,1,0,113803,53.1,C123,S'' @ nl
     @ ''5,0,3,'' @ dq @ ''Allen, Mr. William Henry'' @ dq @ '',male,35,0,0,373450,8.05,,S'' @ nl
     @ ''6,0,3,'' @ dq @ ''Moran, Mr. James'' @ dq @ '',male,,0,0,330877,8.4583,,Q''"

definition loadExampleTitanic :: "runtime \<Rightarrow> error + parsed" where
  "loadExampleTitanic rt = settle_parse (Papa_parse_text rt rawData)"

section \<open>The application\<close>

datatype Tab = ChartTab | RTab | PythonTab

record app_state =
  dataset :: "Dataset option"
  config :: "VisualizationConfig option"
  loading :: bool
  prompt :: string
  imagePreview :: "string option"
  activeTab :: Tab

definition initial_state :: app_state where
  "initial_state =
     \<lparr>dataset = None, config = None, loading = False, prompt = [],
      imagePreview = None, activeTab = ChartTab\<rparr>"

text \<open>
  Each handler takes the state it is called in and returns the state it leaves, with the
  effects in the order they happen. An awaited call is taken together with its outcome,
  so a handler is one step. The effect on mount has no \<open>catch\<close>.
\<close>

definition on_mount :: "runtime \<Rightarrow> app_state \<Rightarrow> app_state \<times> effect list" where
  "on_mount rt s =
     (case loadExampleTitanic rt of
        Inr res \<Rightarrow>
          (s\<lparr>dataset := Some \<lparr>name = ''Titanic Dataset'', data = parsed_data res,
                              columns = parsed_columns res\<rparr>\<rparr>, [])
      | Inl e \<Rightarrow> (s, [UnhandledRejection e]))"

definition handleFileUpload ::
  "runtime \<Rightarrow> File option \<Rightarrow> app_state \<Rightarrow> app_state \<times> effect list" where
  "handleFileUpload rt file_opt s =
     (case file_opt of
        None \<Rightarrow> (s, [])
      | Some f \<Rightarrow>
          (case parseCSV rt f of
             Inr res \<Rightarrow>
               (s\<lparr>dataset := Some \<lparr>name = file_name f, data = parsed_data res,
                                   columns = parsed_columns res\<rparr>,
                  config := None\<rparr>, [])
           | Inl err \<Rightarrow> (s, [ConsoleError err, Alert ''Failed to parse CSV''])))"

definition handleImageUpload ::
  "runtime \<Rightarrow> File option \<Rightarrow> app_state \<Rightarrow> app_state \<times> effect list" where
  "handleImageUpload rt file_opt s =
     (case file_opt of
        None \<Rightarrow> (s, [])
      | Some f \<Rightarrow> (s\<lparr>imagePreview := readAsDataURL rt f\<rparr>, []))"

text \<open>The branch of \<open>handleGenerate\<close>: \<open>config && prompt && !imagePreview\<close>.\<close>

definition refines :: "app_state \<Rightarrow> bool" where
  "refines s = (config s \<noteq> None \<and> prompt s \<noteq> [] \<and> \<not> truthy (imagePreview s))"

definition generation_call ::
  "runtime \<Rightarrow> app_state \<Rightarrow> Dataset \<Rightarrow> (error + VisualizationConfig) \<times> effect list" where
  "generation_call rt s ds =
     (if refines s then refineConfig rt (the (config s)) (prompt s)
      else analyzeImageAndData rt (imagePreview s) (data ds) (columns ds)
             (if prompt s \<noteq> [] then prompt s else ''Visualize this data effectively''))"

definition handleGenerate :: "runtime \<Rightarrow> app_state \<Rightarrow> app_state \<times> effect list" where
  "handleGenerate rt s =
     (case dataset s of
        None \<Rightarrow> (s, [])
      | Some ds \<Rightarrow>
          (let s1 = s\<lparr>loading := True\<rparr>;
               (res, trace) = generation_call rt s ds;
               (s2, trace2) =
                 (case res of
                    Inr newConfig \<Rightarrow> (s1\<lparr>config := Some newConfig\<rparr>, trace)
                  | Inl err \<Rightarrow>
                      (s1, trace @ [ConsoleError err,
                         Alert ''AI Generation failed. Please check your API Key or try again.'']))
           in (s2\<lparr>loading := False\<rparr>, trace2)))"

text \<open>
  The trigger control: \<open>onClick={handleGenerate}\<close>, \<open>disabled={loading || !dataset}\<close>.
  A click on a disabled button reaches no handler.
\<close>

record button =
  disabled :: bool
  onClick :: "runtime \<Rightarrow> app_state \<Rightarrow> app_state \<times> effect list"

definition generate_button :: "app_state \<Rightarrow> button" where
  "generate_button s =
     \<lparr>disabled = (loading s \<or> dataset s = None), onClick = handleGenerate\<rparr>"

definition click :: "button \<Rightarrow> runtime \<Rightarrow> app_state \<Rightarrow> app_state \<times> effect list" where
  "click b rt s = (if disabled b then (s, []) else onClick b rt s)"

section \<open>Rendering\<close>

definition COLORS :: "string list" where
  "COLORS = [''#3b82f6'', ''#10b981'', ''#f59e0b'', ''#ef4444'', ''#8b5cf6'', ''#ec4899'',
             ''#6366f1'']"

text \<open>\<open>xs[i]\<close>: undefined out of range.\<close>

definition at_index :: "'a list \<Rightarrow> nat \<Rightarrow> 'a option" where
  "at_index xs i = (if i < length xs then Some (xs ! i) else None)"

text \<open>\<open>config.colors?.[i] || COLORS[i % COLORS.length]\<close>.\<close>

definition series_color :: "VisualizationConfig \<Rightarrow> nat \<Rightarrow> string" where
  "series_color cfg i =
     (let own = (case colors cfg of None \<Rightarrow> None | Some cs \<Rightarrow> at_index cs i)
      in if truthy own then the own else COLORS ! (i mod length COLORS))"

text \<open>
  \<open>config.colors?.[index % (config.colors.length || 1)] || COLORS[index % COLORS.length]\<close>.
\<close>

definition cell_color :: "VisualizationConfig \<Rightarrow> nat \<Rightarrow> string" where
  "cell_color cfg i =
     (let own = (case colors cfg of
                   None \<Rightarrow> None
                 | Some cs \<Rightarrow> at_index cs (i mod (if length cs = 0 then 1 else length cs)))
      in if truthy own then the own else COLORS ! (i mod length COLORS))"

text \<open>
  \<open>config.seriesKeys && config.seriesKeys.length > 0 ? config.seriesKeys : [config.yAxisKey]\<close>.
\<close>

definition series_keys :: "VisualizationConfig \<Rightarrow> string option list" where
  "series_keys cfg =
     (case seriesKeys cfg of
        None \<Rightarrow> [yAxisKey cfg]
      | Some ks \<Rightarrow> if length ks > 0 then map Some ks else [yAxisKey cfg])"

text \<open>
  The elements that \<open>renderChart\<close> returns, with the attributes that depend on the state:
  the data, the keys and the colours. A series carries its \<open>dataKey\<close> and its colour.
\<close>

datatype series = Bar "string option" string | Line "string option" string
  | Area "string option" string string

datatype element =
    NoVisualization
  | BarChart chart_rows string "series list"
  | LineChart chart_rows string "series list"
  | ScatterChart chart_rows string "string option" "string option" "string option" string
  | PieChart chart_rows string string "string list"
  | AreaChart chart_rows string "series list"
  | ComposedChart chart_rows string "series list"

definition chartData :: "app_state \<Rightarrow> chart_rows" where
  "chartData s =
     processData (Some (case dataset s of None \<Rightarrow> [] | Some ds \<Rightarrow> data ds)) (config s)"

fun chart_length :: "chart_rows \<Rightarrow> nat" where
  "chart_length (Raw rows) = length rows"
| "chart_length (Grouped entries) = length entries"

definition bars :: "VisualizationConfig \<Rightarrow> series list" where
  "bars cfg =
     map (\<lambda>(key, i). Bar key (series_color cfg i))
       (zip (series_keys cfg) [0 ..< length (series_keys cfg)])"

definition renderChart :: "app_state \<Rightarrow> element" where
  "renderChart s =
     (case (config s, dataset s) of
        (Some cfg, Some ds) \<Rightarrow>
          (let keys = series_keys cfg; indexed = zip keys [0 ..< length keys]
           in case chartType cfg of
                BAR \<Rightarrow> BarChart (chartData s) (xAxisKey cfg) (bars cfg)
              | LINE \<Rightarrow>
                  LineChart (chartData s) (xAxisKey cfg)
                    (map (\<lambda>(key, i). Line key (series_color cfg i)) indexed)
              | SCATTER \<Rightarrow>
                  ScatterChart (chartData s) (xAxisKey cfg) (xLabel cfg) (yAxisKey cfg)
                    (yLabel cfg) (title cfg)
              | PIE \<Rightarrow>
                  PieChart (chartData s)
                    (count_key cfg)
                    (if xAxisKey cfg \<noteq> [] then xAxisKey cfg else ''name'')
                    (map (cell_color cfg) [0 ..< chart_length (chartData s)])
              | AREA \<Rightarrow>
                  AreaChart (chartData s) (xAxisKey cfg)
                    (map (\<lambda>(key, i). Area key (series_color cfg i) (series_color cfg i)) indexed)
              | _ \<Rightarrow> ComposedChart (chartData s) (xAxisKey cfg) (bars cfg))
      | _ \<Rightarrow> NoVisualization)"

section \<open>Observations and sample values\<close>

text \<open>The image payloads among the parts of a request, and the requests among effects.\<close>

fun image_payloads :: "part list \<Rightarrow> string list" where
  "image_payloads [] = []"
| "image_payloads (TextPart t # ps) = image_payloads ps"
| "image_payloads (InlineData mime d # ps) = d # image_payloads ps"

definition request_images :: "request \<Rightarrow> string list" where
  "request_images req = (case contents req of Prompt t \<Rightarrow> [] | Parts ps \<Rightarrow> image_payloads ps)"

fun requests :: "effect list \<Rightarrow> request list" where
  "requests [] = []"
| "requests (GenerateContent req # es) = req # requests es"
| "requests (e # es) = requests es"

text \<open>The substring after the first comma, empty when there is no comma.\<close>

definition after_first_comma :: "string \<Rightarrow> string" where
  "after_first_comma s = tl (dropWhile (\<lambda>c. c \<noteq> CHR '','') s)"

text \<open>The keys that collide with a property inherited from \<open>Object.prototype\<close>.\<close>

definition inherited_key :: "string \<Rightarrow> bool" where
  "inherited_key k = (k = ''__proto__'' \<or> k \<in> set Object_prototype_functions)"

definition sample_config :: "ChartType \<Rightarrow> string option \<Rightarrow> VisualizationConfig" where
  "sample_config t y =
     \<lparr>chartType = t, xAxisKey = ''Category'', yAxisKey = y, seriesKeys = None,
      groupBy = None, title = ''Passengers'', description = ''By category'', colors = None,
      xLabel = None, yLabel = None, rCode = None, pythonCode = None\<rparr>"

definition sample_rows :: "row list" where
  "sample_rows =
     replicate 10 [(''Category'', Str ''b''), (''Fare'', Num ''7.25'')]
     @ replicate 10 [(''Category'', Num ''10''), (''Fare'', Num ''8.05'')]
     @ replicate 5 [(''Category'', Num ''2''), (''Fare'', Null)]"

definition sample_dataset :: Dataset where
  "sample_dataset = \<lparr>name = ''sample.csv'', data = sample_rows, columns = [''Category'', ''Fare'']\<rparr>"

definition sample_file :: "string \<Rightarrow> File" where
  "sample_file bytes = \<lparr>file_name = ''sample.csv'', file_bytes = bytes\<rparr>"

text \<open>
  A runtime to evaluate with: the model answers every request with a radar configuration,
  the parser fails on an empty file, and the stringifiers write the keys and cell texts.
\<close>

definition sample_runtime :: "string option \<Rightarrow> runtime" where
  "sample_runtime key =
     \<lparr>API_KEY = key,
      generateContent = (\<lambda>k req. Response (Some ''radar'')),
      stringify_columns = concat,
      stringify_rows = (\<lambda>rows. concat (map (\<lambda>r. concat (map (\<lambda>p. fst p @ '':'' @ cell_text (snd p) @ '';'') r) @ ''|'') rows)),
      stringify_config = title,
      JSON_parse = (\<lambda>t. if t = ''radar'' then Some (sample_config RADAR (Some ''Fare'')) else None),
      Papa_parse_file = (\<lambda>f. if file_bytes f = [] then Failed ''empty file''
                              else Complete sample_rows (Some [''Category'', ''Fare''])),
      Papa_parse_text = (\<lambda>t. Complete sample_rows (Some [''Category'', ''Fare''])),
      readAsDataURL = (\<lambda>f. Some (''data:image/png;base64,'' @ file_bytes f))\<rparr>"

definition sample_state :: "VisualizationConfig option \<Rightarrow> bool \<Rightarrow> app_state" where
  "sample_state c l =
     \<lparr>dataset = Some sample_dataset, config = c, loading = l, prompt = ''make it a radar'',
      imagePreview = None, activeTab = ChartTab\<rparr>"

text \<open>A configuration with three series keys and two colours, the second empty.\<close>

definition sample_series_config :: VisualizationConfig where
  "sample_series_config =
     (sample_config COMPOSED (Some ''Fare''))
       \<lparr>seriesKeys := Some [''Fare'', ''Age'', ''SibSp''], colors := Some [''#ff0000'', []]\<rparr>"

text \<open>The count held by a value: a text holds none.\<close>

fun number_of :: "jsval \<Rightarrow> nat" where
  "number_of (Number n) = n"
| "number_of (Text s) = 0"

text \<open>
  What can happen to the application, one handler at a time, and the state after a
  sequence of events from the initial state.
\<close>

datatype event =
    Mount
  | FileUpload "File option"
  | ImageUpload "File option"
  | SetPrompt string
  | SetActiveTab Tab
  | ClickGenerate

fun step :: "runtime \<Rightarrow> event \<Rightarrow> app_state \<Rightarrow> app_state" where
  "step rt Mount s = fst (on_mount rt s)"
| "step rt (FileUpload f) s = fst (handleFileUpload rt f s)"
| "step rt (ImageUpload f) s = fst (handleImageUpload rt f s)"
| "step rt (SetPrompt p) s = s\<lparr>prompt := p\<rparr>"
| "step rt (SetActiveTab t) s = s\<lparr>activeTab := t\<rparr>"
| "step rt ClickGenerate s = fst (click (generate_button s) rt s)"

definition run :: "runtime \<Rightarrow> event list \<Rightarrow> app_state" where
  "run rt events = fold (step rt) events initial_state"

section \<open>The aggregation heuristic\<close>

text \<open>
  C1. For every rows list and every configuration, \<open>processData\<close> replaces the rows with
  per-group counts exactly when the chart type is pie or bar, there are more than 20 rows
  and the y-axis key is absent, empty or \<open>count\<close>; the output then has one entry per
  distinct text of \<open>row[xAxisKey]\<close>, and the counts add up to the number of rows. The
  program counts in an object written \<open>{}\<close>, so a group whose text is the name of an
  inherited property is not counted: 21 rows of the group \<open>constructor\<close> give one entry
  whose count is a text, not 21, and 21 rows of the group \<open>__proto__\<close> give no entry.
\<close>

theorem processData_inherited_keys:
  "processData (Some (replicate 21 [(''Category'', Str ''constructor'')]))
       (Some (sample_config BAR (Some ''count''))) =
     Grouped [[(''Category'', Text ''constructor''),
               (''count'', Text ''function Object() { [native code] }111111111111111111111''),
               (''name'', Text ''constructor'')]]
   \<and> processData (Some (replicate 21 [(''Category'', Str ''__proto__'')]))
       (Some (sample_config BAR (Some ''count''))) = Grouped []"
  by code_simp

text \<open>The scenario of the specification: 25 rows in three groups of 10, 10 and 5.\<close>

lemma processData_sample:
  "processData (Some sample_rows) (Some (sample_config BAR None)) =
     Grouped [[(''Category'', Text ''2''), (''value'', Number 5), (''name'', Text ''2'')],
              [(''Category'', Text ''10''), (''value'', Number 10), (''name'', Text ''10'')],
              [(''Category'', Text ''b''), (''value'', Number 10), (''name'', Text ''b'')]]"
  by code_simp

text \<open>
  Apart from those keys the aggregation is what C1 says. The invariant of the loop: the
  keys of \<open>counts\<close> are distinct, each seen key holds the number of its rows, and the
  numbers add up to the rows seen.
\<close>

lemma sum_update:
  "distinct (map fst c) \<Longrightarrow> map_of c k = Some v \<Longrightarrow>
   sum_list (map (\<lambda>p. g (snd p)) (AList.update k w c)) + g v
     = sum_list (map (\<lambda>p. g (snd p)) c) + (g w :: nat)"
  by (induction c) (auto simp: rev_image_eqI)

lemma count_row_known:
  assumes "map_of c (row_text r x) = Some (Number n)"
  shows "count_row x r c = AList.update (row_text r x) (Number (Suc n)) c"
  using assms by (simp add: count_row_def Let_def js_get_def js_set_def)

lemma count_row_new:
  assumes "map_of c (row_text r x) = None" and "\<not> inherited_key (row_text r x)"
  shows "count_row x r c = c @ [(row_text r x, Number 1)]"
  using assms by (simp add: count_row_def Let_def js_get_def js_set_def inherited_key_def)

lemma counts_invariant:
  assumes "\<forall>r\<in>set rows. \<not> inherited_key (row_text r x)"
  shows "distinct (map fst (fold (count_row x) rows []))
    \<and> (\<forall>k. map_of (fold (count_row x) rows []) k =
          (if k \<in> (\<lambda>r. row_text r x) ` set rows
           then Some (Number (count_list (map (\<lambda>r. row_text r x) rows) k)) else None))
    \<and> sum_list (map (\<lambda>p. number_of (snd p)) (fold (count_row x) rows [])) = length rows"
  using assms
proof (induction rows rule: rev_induct)
  case Nil
  then show ?case by simp
next
  case (snoc r rows)
  let ?c = "fold (count_row x) rows []"
  let ?k = "row_text r x"
  let ?keys = "map (\<lambda>r. row_text r x) rows"
  from snoc have d: "distinct (map fst ?c)"
    and m: "\<And>k. map_of ?c k = (if k \<in> (\<lambda>r. row_text r x) ` set rows
              then Some (Number (count_list ?keys k)) else None)"
    and t: "sum_list (map (\<lambda>p. number_of (snd p)) ?c) = length rows"
    and plain: "\<not> inherited_key ?k"
    by simp_all
  show ?case
  proof (cases "?k \<in> (\<lambda>r. row_text r x) ` set rows")
    case True
    with m have known: "map_of ?c ?k = Some (Number (count_list ?keys ?k))" by simp
    have step: "fold (count_row x) (rows @ [r]) [] =
        AList.update ?k (Number (Suc (count_list ?keys ?k))) ?c"
      by (simp add: count_row_known [OF known])
    have "sum_list (map (\<lambda>p. number_of (snd p)) (AList.update ?k (Number (Suc (count_list ?keys ?k))) ?c))
            + number_of (Number (count_list ?keys ?k))
          = sum_list (map (\<lambda>p. number_of (snd p)) ?c) + number_of (Number (Suc (count_list ?keys ?k)))"
      using d known by (rule sum_update)
    with t have s: "sum_list (map (\<lambda>p. number_of (snd p))
        (AList.update ?k (Number (Suc (count_list ?keys ?k))) ?c)) = Suc (length rows)"
      by simp
    show ?thesis
      unfolding step using d m s True
      by (auto simp: distinct_update update_conv')
  next
    case False
    with m have new: "map_of ?c ?k = None" by simp
    have step: "fold (count_row x) (rows @ [r]) [] = ?c @ [(?k, Number 1)]"
      by (simp add: count_row_new [OF new plain])
    from new have fresh: "?k \<notin> fst ` set ?c"
      by (simp add: map_of_eq_None_iff)
    from False have zero: "count_list ?keys ?k = 0"
      by (simp add: count_list_0_iff)
    show ?thesis
      unfolding step using d m t fresh zero False
      by (auto simp: map_add_def split: option.splits)
  qed
qed


text \<open>Listing the entries only reorders them.\<close>

lemma mset_Object_entries: "mset (Object_entries obj) = mset obj"
  by (simp add: Object_entries_def)

lemma length_Object_entries: "length (Object_entries obj) = length obj"
  using mset_Object_entries [of obj] by (metis size_mset)

lemma set_Object_entries: "set (Object_entries obj) = set obj"
  using mset_Object_entries [of obj] by (metis set_mset_mset)

lemma distinct_keys_Object_entries:
  "distinct (map fst (Object_entries obj)) = distinct (map fst obj)"
proof -
  have "mset (map fst (Object_entries obj)) = mset (map fst obj)"
    by (simp add: mset_Object_entries)
  then show ?thesis by (rule mset_eq_imp_distinct_iff)
qed

lemma sum_Object_entries:
  "sum_list (map (g :: _ \<Rightarrow> nat) (Object_entries obj)) = sum_list (map g obj)"
proof -
  have "mset (map g (Object_entries obj)) = mset (map g obj)"
    by (simp add: mset_Object_entries)
  then show ?thesis by (metis sum_mset_sum_list)
qed

lemma group_entry_name: "map_of (group_entry cfg p) ''name'' = Some (Text (fst p))"
  by (cases p) (simp add: group_entry_def update_conv')

lemma group_entry_count:
  "count_key cfg \<noteq> ''name'' \<Longrightarrow> map_of (group_entry cfg p) (count_key cfg) = Some (snd p)"
  by (cases p) (simp add: group_entry_def update_conv')

lemma count_key_cases:
  "yAxisKey cfg = None \<or> yAxisKey cfg = Some [] \<or> yAxisKey cfg = Some ''count''
   \<Longrightarrow> count_key cfg \<noteq> ''name''"
  by (auto simp: count_key_def)

text \<open>
  Outside the trigger the rows come back as they are; inside it, when no group key is
  an inherited name, there is one entry per distinct key, named by it, and the counts
  add up to the number of rows.
\<close>

lemma processData_untouched:
  assumes "\<not> ((chartType cfg = PIE \<or> chartType cfg = BAR) \<and> 20 < length rows
             \<and> (yAxisKey cfg = None \<or> yAxisKey cfg = Some [] \<or> yAxisKey cfg = Some ''count''))"
  shows "processData (Some rows) (Some cfg) = Raw rows"
  using assms by (auto simp: processData_def)

lemma processData_counts:
  assumes trigger: "chartType cfg = PIE \<or> chartType cfg = BAR" "20 < length rows"
      "yAxisKey cfg = None \<or> yAxisKey cfg = Some [] \<or> yAxisKey cfg = Some ''count''"
    and plain: "\<forall>r\<in>set rows. \<not> inherited_key (row_text r (xAxisKey cfg))"
  shows "\<exists>groups.
      processData (Some rows) (Some cfg) = Grouped groups
    \<and> length groups = card ((\<lambda>r. row_text r (xAxisKey cfg)) ` set rows)
    \<and> distinct (map (\<lambda>g. map_of g ''name'') groups)
    \<and> set (map (\<lambda>g. map_of g ''name'') groups)
        = (\<lambda>r. Some (Text (row_text r (xAxisKey cfg)))) ` set rows
    \<and> (\<exists>ns. map (\<lambda>g. map_of g (count_key cfg)) groups = map (\<lambda>n. Some (Number n)) ns
            \<and> sum_list ns = length rows)"
proof -
  let ?x = "xAxisKey cfg"
  let ?c = "fold (count_row ?x) rows []"
  let ?es = "Object_entries ?c"
  let ?groups = "map (group_entry cfg) ?es"
  let ?K = "(\<lambda>r. row_text r ?x) ` set rows"
  from counts_invariant [OF plain]
  have d: "distinct (map fst ?c)"
    and m: "\<And>k. map_of ?c k = (if k \<in> ?K
              then Some (Number (count_list (map (\<lambda>r. row_text r ?x) rows) k)) else None)"
    and t: "sum_list (map (\<lambda>p. number_of (snd p)) ?c) = length rows"
    by simp_all
  have keys: "fst ` set ?c = ?K"
  proof -
    have "fst ` set ?c = dom (map_of ?c)" by (simp add: dom_map_of_conv_image_fst)
    also have "\<dots> = ?K" using m by (auto simp: dom_def split: if_splits)
    finally show ?thesis .
  qed
  have numbers: "\<exists>n. v = Number n" if "(k, v) \<in> set ?c" for k v
  proof -
    from that d have "map_of ?c k = Some v" by simp
    with m [of k] show ?thesis by (auto split: if_splits)
  qed
  have 1: "processData (Some rows) (Some cfg) = Grouped ?groups"
    using trigger by (simp add: processData_def)
  have 2: "length ?groups = card ?K"
  proof -
    have "length ?groups = length (map fst ?c)" by (simp add: length_Object_entries)
    also have "\<dots> = card (set (map fst ?c))" using distinct_card [OF d] by simp
    also have "\<dots> = card ?K" using keys by simp
    finally show ?thesis .
  qed
  have names: "map (\<lambda>g. map_of g ''name'') ?groups = map (\<lambda>k. Some (Text k)) (map fst ?es)"
    by (simp add: group_entry_name)
  have de: "distinct (map fst ?es)"
    using d by (simp only: distinct_keys_Object_entries)
  have 3: "distinct (map (\<lambda>g. map_of g ''name'') ?groups)"
    unfolding names
  proof (rule distinct_map [THEN iffD2], rule conjI)
    show "distinct (map fst ?es)" by (rule de)
    show "inj_on (\<lambda>k. Some (Text k)) (set (map fst ?es))" by (rule inj_onI) simp
  qed
  have 4: "set (map (\<lambda>g. map_of g ''name'') ?groups) = (\<lambda>r. Some (Text (row_text r ?x))) ` set rows"
  proof -
    have "set (map fst ?es) = ?K" using keys by (simp add: set_Object_entries)
    then show ?thesis unfolding names by (auto simp del: map_map)
  qed
  have ck: "count_key cfg \<noteq> ''name''" using trigger(3) by (rule count_key_cases)
  have 5: "map (\<lambda>g. map_of g (count_key cfg)) ?groups
        = map (\<lambda>n. Some (Number n)) (map (\<lambda>p. number_of (snd p)) ?es)"
  proof -
    have "map_of (group_entry cfg p) (count_key cfg) = Some (Number (number_of (snd p)))"
      if "p \<in> set ?es" for p
    proof -
      from that have "(fst p, snd p) \<in> set ?c" by (simp add: set_Object_entries)
      then obtain n where "snd p = Number n" using numbers by blast
      then show ?thesis using group_entry_count [OF ck, of p] by simp
    qed
    then show ?thesis by simp
  qed
  have 6: "sum_list (map (\<lambda>p. number_of (snd p)) ?es) = length rows"
    using t by (simp add: sum_Object_entries)
  from 1 2 3 4 5 6 show ?thesis by blast
qed

section \<open>Rendering an unlisted chart type\<close>

lemma length_bars: "length (bars cfg) = length (series_keys cfg)"
  by (simp add: bars_def)

lemma nth_bars:
  "i < length (series_keys cfg) \<Longrightarrow>
   bars cfg ! i = Bar (series_keys cfg ! i) (series_color cfg i)"
  by (simp add: bars_def)

lemma chartData_unaggregated:
  "config s = Some cfg \<Longrightarrow> dataset s = Some ds \<Longrightarrow> chartType cfg \<noteq> BAR
   \<Longrightarrow> chartType cfg \<noteq> PIE \<Longrightarrow> chartData s = Raw (data ds)"
  by (simp add: chartData_def processData_def)

lemma series_keys_given:
  "seriesKeys cfg = Some ks \<Longrightarrow> ks \<noteq> [] \<Longrightarrow> series_keys cfg = map Some ks"
  by (simp add: series_keys_def)

lemma series_keys_default:
  "seriesKeys cfg = None \<or> seriesKeys cfg = Some [] \<Longrightarrow> series_keys cfg = [yAxisKey cfg]"
  by (auto simp: series_keys_def)

lemma series_color_cases:
  "series_color cfg i =
     (case colors cfg of
        None \<Rightarrow> [''#3b82f6'', ''#10b981'', ''#f59e0b'', ''#ef4444'', ''#8b5cf6'', ''#ec4899'',
                 ''#6366f1''] ! (i mod 7)
      | Some cs \<Rightarrow>
          if i < length cs \<and> cs ! i \<noteq> [] then cs ! i
          else [''#3b82f6'', ''#10b981'', ''#f59e0b'', ''#ef4444'', ''#8b5cf6'', ''#ec4899'',
                ''#6366f1''] ! (i mod 7))"
  by (simp add: series_color_def at_index_def COLORS_def Let_def split: option.splits)

text \<open>
  C2. With a dataset loaded, a configuration whose chart type is none of bar, line,
  scatter, pie and area renders as the fallback: a composed chart over the raw rows with
  one bar per series key. The series keys are the \<open>seriesKeys\<close> of the configuration when
  it has some, and the single y-axis key otherwise; the bar at index \<open>i\<close> is filled with the
  configuration's colour at \<open>i\<close> when there is a non-empty one, and with the palette colour
  at \<open>i mod 7\<close> otherwise.
\<close>

theorem renderChart_fallback:
  assumes "config s = Some cfg" and "dataset s = Some ds"
    and "chartType cfg \<notin> {BAR, LINE, SCATTER, PIE, AREA}"
  shows "renderChart s = ComposedChart (Raw (data ds)) (xAxisKey cfg) (bars cfg)
         \<and> length (bars cfg) = length (series_keys cfg)
         \<and> (\<forall>i < length (series_keys cfg).
               bars cfg ! i = Bar (series_keys cfg ! i) (series_color cfg i))
         \<and> (\<forall>ks. seriesKeys cfg = Some ks \<and> ks \<noteq> [] \<longrightarrow>
               series_keys cfg = map Some ks
               \<and> length (bars cfg) = length ks
               \<and> (\<forall>i < length ks. bars cfg ! i = Bar (Some (ks ! i)) (series_color cfg i)))
         \<and> (seriesKeys cfg = None \<or> seriesKeys cfg = Some [] \<longrightarrow>
               series_keys cfg = [yAxisKey cfg]
               \<and> bars cfg = [Bar (yAxisKey cfg) (series_color cfg 0)])
         \<and> (\<forall>i. series_color cfg i =
               (case colors cfg of
                  None \<Rightarrow> [''#3b82f6'', ''#10b981'', ''#f59e0b'', ''#ef4444'', ''#8b5cf6'',
                           ''#ec4899'', ''#6366f1''] ! (i mod 7)
                | Some cs \<Rightarrow>
                    if i < length cs \<and> cs ! i \<noteq> [] then cs ! i
                    else [''#3b82f6'', ''#10b981'', ''#f59e0b'', ''#ef4444'', ''#8b5cf6'',
                          ''#ec4899'', ''#6366f1''] ! (i mod 7)))"
proof -
  from assms(3) have t: "chartType cfg = RADAR \<or> chartType cfg = COMPOSED"
    by (cases "chartType cfg") simp_all
  have cd: "chartData s = Raw (data ds)"
    using assms t by (auto intro: chartData_unaggregated)
  from t have "renderChart s = ComposedChart (chartData s) (xAxisKey cfg) (bars cfg)"
    using assms(1,2) by (auto simp: renderChart_def Let_def)
  with cd have 1: "renderChart s = ComposedChart (Raw (data ds)) (xAxisKey cfg) (bars cfg)"
    by simp
  have 2: "length (bars cfg) = length (series_keys cfg)"
    by (rule length_bars)
  have 3: "\<forall>i < length (series_keys cfg).
             bars cfg ! i = Bar (series_keys cfg ! i) (series_color cfg i)"
    by (simp add: nth_bars)
  have 4: "series_keys cfg = map Some ks \<and> length (bars cfg) = length ks
           \<and> (\<forall>i < length ks. bars cfg ! i = Bar (Some (ks ! i)) (series_color cfg i))"
    if "seriesKeys cfg = Some ks \<and> ks \<noteq> []" for ks
  proof -
    from that have k: "series_keys cfg = map Some ks" by (simp add: series_keys_given)
    then show ?thesis by (simp add: length_bars nth_bars)
  qed
  have 5: "series_keys cfg = [yAxisKey cfg] \<and> bars cfg = [Bar (yAxisKey cfg) (series_color cfg 0)]"
    if "seriesKeys cfg = None \<or> seriesKeys cfg = Some []"
  proof -
    from that have k: "series_keys cfg = [yAxisKey cfg]" by (rule series_keys_default)
    then show ?thesis by (simp add: bars_def)
  qed
  have 6: "\<forall>i. series_color cfg i =
               (case colors cfg of
                  None \<Rightarrow> [''#3b82f6'', ''#10b981'', ''#f59e0b'', ''#ef4444'', ''#8b5cf6'',
                           ''#ec4899'', ''#6366f1''] ! (i mod 7)
                | Some cs \<Rightarrow>
                    if i < length cs \<and> cs ! i \<noteq> [] then cs ! i
                    else [''#3b82f6'', ''#10b981'', ''#f59e0b'', ''#ef4444'', ''#8b5cf6'',
                          ''#ec4899'', ''#6366f1''] ! (i mod 7))"
    by (simp add: series_color_cases)
  from 1 2 3 4 5 6 show ?thesis by blast
qed

theorem renderChart_fallback_witness:
  "renderChart (sample_state (Some (sample_config RADAR (Some ''Fare''))) False)
     = ComposedChart (Raw sample_rows) ''Category'' [Bar (Some ''Fare'') ''#3b82f6'']
   \<and> renderChart (sample_state (Some sample_series_config) False)
     = ComposedChart (Raw sample_rows) ''Category''
         [Bar (Some ''Fare'') ''#ff0000'', Bar (Some ''Age'') ''#10b981'',
          Bar (Some ''SibSp'') ''#f59e0b'']"
proof -
  have a: "renderChart (sample_state (Some (sample_config RADAR (Some ''Fare''))) False)
     = ComposedChart (Raw sample_rows) ''Category'' [Bar (Some ''Fare'') ''#3b82f6'']"
    using renderChart_fallback [of "sample_state (Some (sample_config RADAR (Some ''Fare''))) False"
      "sample_config RADAR (Some ''Fare'')" sample_dataset]
    by (simp add: sample_state_def sample_config_def sample_dataset_def)
  have k: "bars sample_series_config =
      [Bar (Some ''Fare'') ''#ff0000'', Bar (Some ''Age'') ''#10b981'',
       Bar (Some ''SibSp'') ''#f59e0b'']"
    by code_simp
  have c: "chartType sample_series_config = COMPOSED"
    "xAxisKey sample_series_config = ''Category''"
    by (simp_all add: sample_series_config_def sample_config_def)
  have b: "renderChart (sample_state (Some sample_series_config) False)
     = ComposedChart (Raw sample_rows) ''Category''
         [Bar (Some ''Fare'') ''#ff0000'', Bar (Some ''Age'') ''#10b981'',
          Bar (Some ''SibSp'') ''#f59e0b'']"
    using renderChart_fallback [of "sample_state (Some sample_series_config) False"
      sample_series_config sample_dataset]
    by (simp add: sample_state_def sample_dataset_def k c)
  from a b show ?thesis by simp
qed

section \<open>Generation\<close>

lemma getAiClient_absent:
  "API_KEY rt = None \<or> API_KEY rt = Some [] \<Longrightarrow> getAiClient rt = Inl ApiKeyNotFound"
  by (auto simp: getAiClient_def)

lemma getAiClient_present:
  "API_KEY rt = Some k \<Longrightarrow> k \<noteq> [] \<Longrightarrow> getAiClient rt = Inr k"
  by (simp add: getAiClient_def)

lemma read_response_failures:
  "read_response rt (Rejected reason) = Inl (CallRejected reason)"
  "read_response rt (Response None) = Inl NoResponse"
  "read_response rt (Response (Some [])) = Inl NoResponse"
  by (simp_all add: read_response_def)

text \<open>
  Each way the call can fail is an error value: no key, a rejected call, an answer
  without text.
\<close>

lemma generation_call_failures:
  assumes "getAiClient rt = Inl e
           \<or> (\<exists>k req. getAiClient rt = Inr k \<and> requests (snd (generation_call rt s ds)) = [req]
                \<and> ((\<exists>reason. generateContent rt k req = Rejected reason)
                    \<or> (\<exists>t. generateContent rt k req = Response t \<and> \<not> truthy t)))"
  shows "\<exists>err. fst (generation_call rt s ds) = Inl err"
  using assms
  by (auto simp: generation_call_def refineConfig_def analyzeImageAndData_def Let_def
      read_response_def split: if_splits)

text \<open>
  C3. When the call made by \<open>handleGenerate\<close> fails, the handler leaves the state it found
  with the loading flag false: the configuration and the dataset are the ones from
  before, and the effects end with the error on the console and the alert.
\<close>

theorem handleGenerate_failure:
  assumes "dataset s = Some ds" and "fst (generation_call rt s ds) = Inl err"
  shows "handleGenerate rt s =
           (s\<lparr>loading := False\<rparr>,
            snd (generation_call rt s ds)
            @ [ConsoleError err,
               Alert ''AI Generation failed. Please check your API Key or try again.''])
         \<and> config (fst (handleGenerate rt s)) = config s
         \<and> dataset (fst (handleGenerate rt s)) = dataset s
         \<and> loading (fst (handleGenerate rt s)) = False"
proof -
  obtain res tr where g: "generation_call rt s ds = (res, tr)"
    by (cases "generation_call rt s ds")
  with assms(2) have r: "res = Inl err" by simp
  have "handleGenerate rt s =
          (s\<lparr>loading := False\<rparr>,
           tr @ [ConsoleError err,
                 Alert ''AI Generation failed. Please check your API Key or try again.''])"
    using assms(1) g r by (simp add: handleGenerate_def)
  with g show ?thesis by simp
qed

theorem handleGenerate_failure_witness:
  "handleGenerate (sample_runtime None) (sample_state None True) =
     (sample_state None False,
      [ConsoleError ApiKeyNotFound,
       Alert ''AI Generation failed. Please check your API Key or try again.''])"
  using handleGenerate_failure [of "sample_state None True" sample_dataset "sample_runtime None"
      ApiKeyNotFound]
  by (simp add: sample_state_def sample_runtime_def generation_call_def refines_def
      analyzeImageAndData_def getAiClient_def)

text \<open>
  C4. While the loading flag is true the trigger control is disabled: a click on it
  changes no state and issues no request.
\<close>

theorem generate_ignored_while_loading:
  assumes "loading s"
  shows "click (generate_button s) rt s = (s, [])
         \<and> requests (snd (click (generate_button s) rt s)) = []"
  using assms by (simp add: click_def generate_button_def)

theorem generate_ignored_while_loading_witness:
  "click (generate_button (sample_state None True)) (sample_runtime (Some ''k''))
     (sample_state None True) = (sample_state None True, [])"
  using generate_ignored_while_loading [of "sample_state None True" "sample_runtime (Some ''k'')"]
  by (simp add: sample_state_def)

text \<open>The handler itself does not read the flag: the guard is the button.\<close>

lemma handleGenerate_unguarded:
  "requests (snd (handleGenerate (sample_runtime (Some ''k'')) (sample_state None True))) \<noteq> []"
  by (simp add: handleGenerate_def sample_state_def sample_runtime_def generation_call_def
      refines_def analyzeImageAndData_def getAiClient_def Let_def read_response_def)

text \<open>
  A configuration is only ever stored next to a dataset: whatever the events, the state
  never holds a configuration without one, so \<open>renderChart\<close> never meets that case.
\<close>

lemma step_keeps_dataset:
  assumes "config s \<noteq> None \<longrightarrow> dataset s \<noteq> None"
  shows "config (step rt e s) \<noteq> None \<longrightarrow> dataset (step rt e s) \<noteq> None"
proof (cases e)
  case Mount
  with assms show ?thesis by (auto simp: on_mount_def split: sum.splits)
next
  case (FileUpload f)
  with assms show ?thesis
    by (auto simp: handleFileUpload_def split: option.splits sum.splits)
next
  case (ImageUpload f)
  with assms show ?thesis by (auto simp: handleImageUpload_def split: option.splits)
next
  case (SetPrompt p)
  with assms show ?thesis by simp
next
  case (SetActiveTab t)
  with assms show ?thesis by simp
next
  case ClickGenerate
  show ?thesis
  proof (cases "dataset s")
    case None
    with ClickGenerate assms show ?thesis by (auto simp: click_def generate_button_def)
  next
    case (Some ds)
    then have "dataset (fst (handleGenerate rt s)) = Some ds"
      by (cases "generation_call rt s ds")
         (auto simp: handleGenerate_def Let_def split: sum.splits)
    with ClickGenerate Some show ?thesis
      by (simp add: click_def generate_button_def)
  qed
qed

lemma config_needs_dataset:
  "config (run rt events) \<noteq> None \<longrightarrow> dataset (run rt events) \<noteq> None"
  unfolding run_def
proof (induction events rule: rev_induct)
  case Nil
  show ?case by (simp add: initial_state_def)
next
  case (snoc e events)
  then show ?case by (simp add: step_keeps_dataset)
qed

lemma requests_refineConfig:
  "getAiClient rt = Inr k \<Longrightarrow> requests (snd (refineConfig rt c p)) = [refine_request rt c p]"
  by (simp add: refineConfig_def Let_def)

lemma requests_analyze:
  "getAiClient rt = Inr k \<Longrightarrow>
   requests (snd (analyzeImageAndData rt i d c p)) = [analyze_request rt i d c p]"
  by (simp add: analyzeImageAndData_def Let_def)

lemma requests_append: "requests (xs @ ys) = requests xs @ requests ys"
  by (induction xs rule: requests.induct) simp_all

lemma requests_handleGenerate:
  "dataset s = Some ds \<Longrightarrow>
   requests (snd (handleGenerate rt s)) = requests (snd (generation_call rt s ds))"
  by (cases "generation_call rt s ds")
     (auto simp: handleGenerate_def Let_def requests_append split: sum.splits)

text \<open>
  C7. With a dataset loaded and a key present: when there is a configuration, a non-empty
  instruction and no image (a null or empty preview), \<open>handleGenerate\<close> calls the
  refinement, whose one request has the current configuration, serialised, inside its
  prompt and no image payload; in every other case it calls the full generation.
\<close>

theorem refinement_or_generation:
  assumes "dataset s = Some ds" and "API_KEY rt = Some k" and "k \<noteq> []"
  shows "(config s \<noteq> None \<and> prompt s \<noteq> [] \<and> \<not> truthy (imagePreview s) \<longrightarrow>
            generation_call rt s ds = refineConfig rt (the (config s)) (prompt s)
          \<and> requests (snd (handleGenerate rt s)) = [refine_request rt (the (config s)) (prompt s)]
          \<and> (\<exists>before after.
                contents (refine_request rt (the (config s)) (prompt s)) =
                  Prompt (before @ stringify_config rt (the (config s)) @ after))
          \<and> request_images (refine_request rt (the (config s)) (prompt s)) = [])
       \<and> (\<not> (config s \<noteq> None \<and> prompt s \<noteq> [] \<and> \<not> truthy (imagePreview s)) \<longrightarrow>
            generation_call rt s ds =
              analyzeImageAndData rt (imagePreview s) (data ds) (columns ds)
                (if prompt s \<noteq> [] then prompt s else ''Visualize this data effectively'')
          \<and> requests (snd (handleGenerate rt s)) =
              [analyze_request rt (imagePreview s) (data ds) (columns ds)
                (if prompt s \<noteq> [] then prompt s else ''Visualize this data effectively'')])"
proof -
  have key: "getAiClient rt = Inr k"
    using assms(2,3) by (rule getAiClient_present)
  have ctx: "\<exists>before after.
               contents (refine_request rt c p) = Prompt (before @ stringify_config rt c @ after)"
    for c p
    unfolding refine_request_def refine_prompt_def
    by (rule exI [of _ "nl @ ''    Current Configuration: ''"]) auto
  have img: "request_images (refine_request rt c p) = []" for c p
    by (simp add: request_images_def refine_request_def)
  show ?thesis
  proof (intro conjI impI)
    assume c: "config s \<noteq> None \<and> prompt s \<noteq> [] \<and> \<not> truthy (imagePreview s)"
    then show g: "generation_call rt s ds = refineConfig rt (the (config s)) (prompt s)"
      by (simp add: generation_call_def refines_def)
    show "requests (snd (handleGenerate rt s)) = [refine_request rt (the (config s)) (prompt s)]"
      using assms(1) g key by (simp add: requests_handleGenerate requests_refineConfig)
    show "\<exists>before after.
            contents (refine_request rt (the (config s)) (prompt s)) =
              Prompt (before @ stringify_config rt (the (config s)) @ after)"
      by (rule ctx)
    show "request_images (refine_request rt (the (config s)) (prompt s)) = []"
      by (rule img)
  next
    assume c: "\<not> (config s \<noteq> None \<and> prompt s \<noteq> [] \<and> \<not> truthy (imagePreview s))"
    then show g: "generation_call rt s ds =
        analyzeImageAndData rt (imagePreview s) (data ds) (columns ds)
          (if prompt s \<noteq> [] then prompt s else ''Visualize this data effectively'')"
      by (auto simp: generation_call_def refines_def)
    show "requests (snd (handleGenerate rt s)) =
        [analyze_request rt (imagePreview s) (data ds) (columns ds)
          (if prompt s \<noteq> [] then prompt s else ''Visualize this data effectively'')]"
      using assms(1) g key by (simp only: requests_handleGenerate requests_analyze)
  qed
qed

theorem refinement_or_generation_witness:
  "requests (snd (handleGenerate (sample_runtime (Some ''k''))
       (sample_state (Some (sample_config BAR None)) False))) =
     [refine_request (sample_runtime (Some ''k'')) (sample_config BAR None) ''make it a radar'']
   \<and> requests (snd (handleGenerate (sample_runtime (Some ''k'')) (sample_state None False))) =
     [analyze_request (sample_runtime (Some ''k'')) None sample_rows [''Category'', ''Fare'']
        ''make it a radar'']"
  using refinement_or_generation [of "sample_state (Some (sample_config BAR None)) False"
      sample_dataset "sample_runtime (Some ''k'')" "''k''"]
    refinement_or_generation [of "sample_state None False"
      sample_dataset "sample_runtime (Some ''k'')" "''k''"]
  by (simp add: sample_state_def sample_runtime_def sample_dataset_def)

section \<open>Uploading a dataset\<close>

text \<open>
  C5. When the parse of an uploaded file succeeds, the state holds the new dataset (the
  name of the file, the rows and the columns of the parse) and no configuration.
\<close>

theorem upload_replaces_dataset_and_clears_config:
  assumes "parseCSV rt f = Inr res"
  shows "handleFileUpload rt (Some f) s =
           (s\<lparr>dataset := Some \<lparr>name = file_name f, data = parsed_data res,
                               columns = parsed_columns res\<rparr>,
              config := None\<rparr>, [])
         \<and> config (fst (handleFileUpload rt (Some f) s)) = None"
  using assms by (simp add: handleFileUpload_def)

theorem upload_replaces_dataset_and_clears_config_witness:
  "config (fst (handleFileUpload (sample_runtime None) (Some (sample_file ''a,b''))
            (sample_state (Some (sample_config BAR None)) False))) = None
   \<and> dataset (fst (handleFileUpload (sample_runtime None) (Some (sample_file ''a,b''))
            (sample_state (Some (sample_config BAR None)) False))) = Some sample_dataset"
  using upload_replaces_dataset_and_clears_config [of "sample_runtime None" "sample_file ''a,b''"
      "\<lparr>parsed_data = sample_rows, parsed_columns = [''Category'', ''Fare'']\<rparr>"
      "sample_state (Some (sample_config BAR None)) False"]
  by (simp add: parseCSV_def sample_runtime_def sample_file_def sample_dataset_def)

text \<open>
  C6. When the parser reports an error or completes without column fields, the upload
  handler logs the error, shows the alert and returns the state it found.
\<close>

theorem failed_upload_changes_nothing:
  assumes "Papa_parse_file rt f = Failed e \<or> Papa_parse_file rt f = Complete rows None"
  shows "\<exists>err. handleFileUpload rt (Some f) s =
                 (s, [ConsoleError err, Alert ''Failed to parse CSV''])"
  using assms by (auto simp: handleFileUpload_def parseCSV_def)

theorem failed_upload_changes_nothing_witness:
  "\<exists>err. handleFileUpload (sample_runtime None) (Some (sample_file []))
            (sample_state (Some (sample_config BAR None)) False) =
          (sample_state (Some (sample_config BAR None)) False,
           [ConsoleError err, Alert ''Failed to parse CSV''])"
  using failed_upload_changes_nothing [of "sample_runtime None" "sample_file []" "''empty file''"]
  by (simp add: sample_runtime_def sample_file_def)

section \<open>The image payload\<close>

lemma split_on_fields:
  "split_on sep s =
     takeWhile (\<lambda>c. c \<noteq> sep) s
     # (case dropWhile (\<lambda>c. c \<noteq> sep) s of [] \<Rightarrow> [] | c # rest \<Rightarrow> split_on sep rest)"
  by (induction s) (auto simp: Let_def split: list.splits)

lemma second_field:
  assumes "CHR '','' \<in> set s"
  shows "1 < length (split_on (CHR '','') s)
   \<and> split_on (CHR '','') s ! 1 = takeWhile (\<lambda>c. c \<noteq> CHR '','') (after_first_comma s)"
proof -
  from assms obtain c rest where d: "dropWhile (\<lambda>c. c \<noteq> CHR '','') s = c # rest"
    by (cases "dropWhile (\<lambda>c. c \<noteq> CHR '','') s") (auto simp: dropWhile_eq_Nil_conv)
  have "split_on (CHR '','') s = takeWhile (\<lambda>c. c \<noteq> CHR '','') s # split_on (CHR '','') rest"
    by (subst split_on_fields) (simp add: d)
  moreover have "split_on (CHR '','') rest =
      takeWhile (\<lambda>c. c \<noteq> CHR '','') rest
      # (case dropWhile (\<lambda>c. c \<noteq> CHR '','') rest of
           [] \<Rightarrow> [] | c # r \<Rightarrow> split_on (CHR '','') r)"
    by (rule split_on_fields)
  ultimately show ?thesis by (simp add: after_first_comma_def d)
qed

lemma no_second_field:
  assumes n: "CHR '','' \<notin> set s"
  shows "split_on (CHR '','') s = [s]"
proof -
  from n have d: "dropWhile (\<lambda>c. c \<noteq> CHR '','') s = []" by auto
  from n have t: "takeWhile (\<lambda>c. c \<noteq> CHR '','') s = s" by (auto simp: takeWhile_eq_all_conv)
  show ?thesis by (subst split_on_fields) (simp add: d t)
qed

lemma cleanBase64_cases:
  "cleanBase64 s =
     (if CHR '','' \<in> set s \<and> takeWhile (\<lambda>c. c \<noteq> CHR '','') (after_first_comma s) \<noteq> []
      then takeWhile (\<lambda>c. c \<noteq> CHR '','') (after_first_comma s) else s)"
proof (cases "CHR '','' \<in> set s")
  case True
  from second_field [OF True] show ?thesis by (simp add: cleanBase64_def Let_def True)
next
  case False
  then show ?thesis by (simp add: cleanBase64_def no_second_field)
qed

text \<open>The parts are the contents of the request.\<close>

lemma analyze_request_images:
  "contents (analyze_request rt img d c p) = Parts (analyze_parts rt img d c p)
   \<and> request_images (analyze_request rt img d c p) = image_payloads (analyze_parts rt img d c p)"
  by (simp add: analyze_request_def request_images_def)

text \<open>
  C8, as stated, fails. The payload is not always the substring after the first comma:
  with a second comma it stops there, and with nothing after the comma the whole string
  is sent, prefix included. An empty image string adds no image part.
\<close>

theorem image_payload_counterexample:
  "image_payloads (analyze_parts (sample_runtime (Some ''k''))
       (Some ''data:image/png;base64,AAAA,BBBB'') sample_rows [''Category''] ''p'') = [''AAAA'']
   \<and> after_first_comma ''data:image/png;base64,AAAA,BBBB'' = ''AAAA,BBBB''
   \<and> image_payloads (analyze_parts (sample_runtime (Some ''k''))
       (Some ''data:image/png;base64,'') sample_rows [''Category''] ''p'')
       = [''data:image/png;base64,'']
   \<and> after_first_comma ''data:image/png;base64,'' = []
   \<and> image_payloads (analyze_parts (sample_runtime (Some ''k'')) (Some [])
       sample_rows [''Category''] ''p'') = []"
  by (simp add: analyze_parts_def cleanBase64_cases after_first_comma_def)

text \<open>
  C8, amended. A null or empty image adds no image part. A non-empty image string without
  a comma is sent unchanged. A string with exactly one comma and some text after it, as a
  base64 data URL is, is sent as the substring after the comma.
\<close>

theorem image_payload_data_url:
  "image_payloads (analyze_parts rt None dataSample cols userPrompt) = []
   \<and> image_payloads (analyze_parts rt (Some []) dataSample cols userPrompt) = []
   \<and> (s \<noteq> [] \<and> CHR '','' \<notin> set s \<longrightarrow>
        image_payloads (analyze_parts rt (Some s) dataSample cols userPrompt) = [s])
   \<and> (CHR '','' \<in> set s \<and> CHR '','' \<notin> set (after_first_comma s) \<and> after_first_comma s \<noteq> [] \<longrightarrow>
        image_payloads (analyze_parts rt (Some s) dataSample cols userPrompt)
          = [after_first_comma s])"
proof -
  have b: "CHR '','' \<notin> set t \<Longrightarrow> takeWhile (\<lambda>c. c \<noteq> CHR '','') t = t" for t
    by (auto simp: takeWhile_eq_all_conv)
  have c: "s \<noteq> []" if "CHR '','' \<in> set s"
    using that by auto
  show ?thesis
    by (auto simp: analyze_parts_def cleanBase64_cases b dest: c)
qed

theorem image_payload_data_url_witness:
  "image_payloads (analyze_parts (sample_runtime None)
      (Some ''data:image/png;base64,iVBORw0KGgo='') sample_rows [''Category''] ''p'')
     = [''iVBORw0KGgo='']
   \<and> image_payloads (analyze_parts (sample_runtime None)
      (Some ''iVBORw0KGgo='') sample_rows [''Category''] ''p'') = [''iVBORw0KGgo='']"
  using image_payload_data_url [of "sample_runtime None" sample_rows "[''Category'']" "''p''"
      "''data:image/png;base64,iVBORw0KGgo=''"]
    image_payload_data_url [of "sample_runtime None" sample_rows "[''Category'']" "''p''"
      "''iVBORw0KGgo=''"]
  by (simp add: after_first_comma_def)

section \<open>The credential and the data sample\<close>

lemma settle_parse_not_key: "settle_parse r \<noteq> Inl ApiKeyNotFound"
  by (cases r rule: settle_parse.cases) simp_all

text \<open>
  C9. Without a key (absent or empty) both operations fail with the key error before any
  request is made; mounting the application and uploading a dataset behave as they do with
  a key, and neither reports the key error.
\<close>

theorem missing_key_fails_at_call_time:
  assumes "API_KEY rt = None \<or> API_KEY rt = Some []"
  shows "analyzeImageAndData rt img dataSample cols userPrompt = (Inl ApiKeyNotFound, [])
         \<and> refineConfig rt currentConfig userPrompt = (Inl ApiKeyNotFound, [])
         \<and> on_mount rt s = on_mount (rt\<lparr>API_KEY := Some ''key''\<rparr>) s
         \<and> handleFileUpload rt file_opt s
             = handleFileUpload (rt\<lparr>API_KEY := Some ''key''\<rparr>) file_opt s
         \<and> UnhandledRejection ApiKeyNotFound \<notin> set (snd (on_mount rt s))
         \<and> ConsoleError ApiKeyNotFound \<notin> set (snd (handleFileUpload rt file_opt s))"
proof -
  have k: "getAiClient rt = Inl ApiKeyNotFound"
    using assms by (rule getAiClient_absent)
  have 1: "analyzeImageAndData rt img dataSample cols userPrompt = (Inl ApiKeyNotFound, [])"
    by (simp add: analyzeImageAndData_def k)
  have 2: "refineConfig rt currentConfig userPrompt = (Inl ApiKeyNotFound, [])"
    by (simp add: refineConfig_def k)
  have 3: "on_mount rt s = on_mount (rt\<lparr>API_KEY := Some ''key''\<rparr>) s"
    by (simp add: on_mount_def loadExampleTitanic_def)
  have 4: "handleFileUpload rt file_opt s
             = handleFileUpload (rt\<lparr>API_KEY := Some ''key''\<rparr>) file_opt s"
    by (cases file_opt) (simp_all add: handleFileUpload_def parseCSV_def)
  have 5: "UnhandledRejection ApiKeyNotFound \<notin> set (snd (on_mount rt s))"
    using settle_parse_not_key [of "Papa_parse_text rt rawData"]
    by (auto simp: on_mount_def loadExampleTitanic_def split: sum.splits)
  have 6: "ConsoleError ApiKeyNotFound \<notin> set (snd (handleFileUpload rt file_opt s))"
  proof (cases file_opt)
    case None
    then show ?thesis by (simp add: handleFileUpload_def)
  next
    case (Some f)
    then show ?thesis
      using settle_parse_not_key [of "Papa_parse_file rt f"]
      by (auto simp: handleFileUpload_def parseCSV_def split: sum.splits)
  qed
  from 1 2 3 4 5 6 show ?thesis by blast
qed

theorem missing_key_fails_at_call_time_witness:
  "analyzeImageAndData (sample_runtime None) None sample_rows [''Category'', ''Fare''] ''p''
     = (Inl ApiKeyNotFound, [])
   \<and> refineConfig (sample_runtime None) (sample_config BAR None) ''p'' = (Inl ApiKeyNotFound, [])
   \<and> on_mount (sample_runtime None) initial_state =
       (initial_state\<lparr>dataset := Some \<lparr>name = ''Titanic Dataset'', data = sample_rows,
                                        columns = [''Category'', ''Fare'']\<rparr>\<rparr>, [])"
  using missing_key_fails_at_call_time [of "sample_runtime None" None sample_rows
      "[''Category'', ''Fare'']" "''p''" "sample_config BAR None" initial_state None]
  by (simp add: sample_runtime_def on_mount_def loadExampleTitanic_def)

text \<open>
  C10. Two data arrays with the same first three rows give the same request, and so the
  same outcome of the full generation: later rows never reach the prompt.
\<close>

theorem prompt_uses_first_three_rows:
  assumes "take 3 d1 = take 3 d2"
  shows "analyze_request rt img d1 cols userPrompt = analyze_request rt img d2 cols userPrompt
         \<and> analyzeImageAndData rt img d1 cols userPrompt
             = analyzeImageAndData rt img d2 cols userPrompt"
proof -
  have "analyze_prompt rt d1 cols userPrompt = analyze_prompt rt d2 cols userPrompt"
    using assms by (simp add: analyze_prompt_def)
  then have "analyze_request rt img d1 cols userPrompt = analyze_request rt img d2 cols userPrompt"
    by (simp add: analyze_request_def analyze_parts_def)
  then show ?thesis by (cases "getAiClient rt") (simp_all add: analyzeImageAndData_def)
qed

theorem prompt_uses_first_three_rows_witness:
  "analyze_request (sample_runtime (Some ''k'')) None sample_rows [''Category''] ''p''
     = analyze_request (sample_runtime (Some ''k'')) None (take 3 sample_rows) [''Category''] ''p''"
  using prompt_uses_first_three_rows [of sample_rows "take 3 sample_rows"
      "sample_runtime (Some ''k'')" None "[''Category'']" "''p''"]
  by simp

end
